theory Spec2Isabelle
  imports Main
begin

section \<open>Conventions\<close>

text \<open>
  JavaScript strings are modelled as \<^typ>\<open>string\<close> (lists of 8-bit characters, i.e.
  strings whose code units are below 256). A value that may be \<open>undefined\<close> or \<open>null\<close>
  is an \<^typ>\<open>'a option\<close>. A thrown value is a \<open>thrown\<close>; a computation that may throw
  returns \<open>thrown + 'a\<close> with \<open>Inl\<close> for the throw.
\<close>

datatype thrown =
    Error string   \<comment> \<open>an instance of \<open>Error\<close> with its \<open>message\<close>\<close>
  | NonError       \<comment> \<open>any thrown value that is not an \<open>Error\<close>\<close>

text \<open>Sequencing: a throw ends the computation, a value is passed on.\<close>

definition andThen :: "thrown + 'a \<Rightarrow> ('a \<Rightarrow> thrown + 'b) \<Rightarrow> thrown + 'b" where
  "andThen r f = (case r of Inl e \<Rightarrow> Inl e | Inr v \<Rightarrow> f v)"

text \<open>JavaScript truthiness of an optional string: present and non-empty.\<close>

definition truthy :: "string option \<Rightarrow> bool" where
  "truthy v = (case v of None \<Rightarrow> False | Some s \<Rightarrow> s \<noteq> [])"

text \<open>\<open>a || b\<close> on an optional string and a default string.\<close>

definition orElse :: "string option \<Rightarrow> string \<Rightarrow> string" where
  "orElse v d = (case v of None \<Rightarrow> d | Some s \<Rightarrow> if s = [] then d else s)"

text \<open>\<open>s.startsWith(p)\<close>.\<close>

definition startsWith :: "string \<Rightarrow> string \<Rightarrow> bool" where
  "startsWith s p = (take (length p) s = p)"

text \<open>\<open>s.includes(p)\<close>: \<open>p\<close> occurs in \<open>s\<close> at some position.\<close>

fun includesStr :: "string \<Rightarrow> string \<Rightarrow> bool" where
  "includesStr [] p = (p = [])"
| "includesStr (c # cs) p = (startsWith (c # cs) p \<or> includesStr cs p)"

text \<open>\<open>xs.indexOf(x)\<close>: the first index of \<open>x\<close>, or \<open>-1\<close>.\<close>

fun indexOf :: "'a list \<Rightarrow> 'a \<Rightarrow> int" where
  "indexOf [] x = - 1"
| "indexOf (y # ys) x =
     (if y = x then 0
      else (let i = indexOf ys x in if i < 0 then - 1 else i + 1))"

text \<open>\<open>xs.slice(-n)\<close>: the last \<open>n\<close> elements, or all of \<open>xs\<close> when it is shorter.\<close>

definition sliceLast :: "nat \<Rightarrow> 'a list \<Rightarrow> 'a list" where
  "sliceLast n xs = drop (length xs - n) xs"


section \<open>Theme store (ThemeContext)\<close>

definition themes :: "string list" where
  "themes = [''dark'', ''light'', ''tan'', ''cloud'']"

text \<open>
  What \<open>getInitialTheme\<close> reads: \<open>document\<close> is \<open>None\<close> when there is no document,
  otherwise the result of \<open>getAttribute("data-theme")\<close>; \<open>localStorage\<close> is \<open>None\<close> when
  access to it throws, otherwise the stored items.
\<close>

record browser =
  document :: "string option option"
  localStorage :: "(string \<Rightarrow> string option) option"

text \<open>\<open>v && ["dark", "light", "tan", "cloud"].includes(v)\<close>\<close>

definition isListedTheme :: "string option \<Rightarrow> bool" where
  "isListedTheme v = (case v of None \<Rightarrow> False | Some s \<Rightarrow> s \<noteq> [] \<and> s \<in> set themes)"

definition getInitialTheme :: "browser \<Rightarrow> string \<Rightarrow> string" where
  "getInitialTheme b defaultTheme =
     (case (case document b of
              None \<Rightarrow> None
            | Some htmlTheme \<Rightarrow> if isListedTheme htmlTheme then htmlTheme else None) of
        Some t \<Rightarrow> t
      | None \<Rightarrow>
          (case (case localStorage b of
                   None \<Rightarrow> None
                 | Some items \<Rightarrow>
                     (let saved = items ''blog-theme''
                      in if isListedTheme saved then saved else None)) of
             Some t \<Rightarrow> t
           | None \<Rightarrow> defaultTheme))"

text \<open>\<open>DEFAULT_THEME = siteConfig.defaultTheme || "tan"\<close>; the site configuration is a parameter.\<close>

definition DEFAULT_THEME :: "string option \<Rightarrow> string" where
  "DEFAULT_THEME configured = orElse configured ''tan''"

definition setTheme :: "string \<Rightarrow> string \<Rightarrow> string" where
  "setTheme theme newTheme = newTheme"

text \<open>
  \<open>(currentIndex + 1) % themes.length\<close>: the dividend is never negative, since \<open>indexOf\<close>
  is at least \<open>-1\<close>, so the JavaScript remainder is \<open>mod\<close>.
\<close>

definition toggleTheme :: "string \<Rightarrow> string" where
  "toggleTheme theme =
     (let currentIndex = indexOf themes theme;
          nextIndex = (currentIndex + 1) mod int (length themes)
      in themes ! nat nextIndex)"

text \<open>The provider's state over a sequence of calls of its two setters.\<close>

datatype theme_action = SetTheme string | ToggleTheme

fun theme_step :: "string \<Rightarrow> theme_action \<Rightarrow> string" where
  "theme_step theme (SetTheme newTheme) = setTheme theme newTheme"
| "theme_step theme ToggleTheme = toggleTheme theme"

fun theme_run :: "string \<Rightarrow> theme_action list \<Rightarrow> string" where
  "theme_run theme [] = theme"
| "theme_run theme (a # as) = theme_run (theme_step theme a) as"

text \<open>An action is well typed when the argument of \<open>setTheme\<close> is a \<open>Theme\<close>.\<close>

fun typed_action :: "theme_action \<Rightarrow> bool" where
  "typed_action (SetTheme newTheme) = (newTheme \<in> set themes)"
| "typed_action ToggleTheme = True"


section \<open>Provider selection (aiChatActions)\<close>

datatype provider = Anthropic | OpenAI | Google

text \<open>The string the source uses for each provider.\<close>

fun providerName :: "provider \<Rightarrow> string" where
  "providerName Anthropic = ''anthropic''"
| "providerName OpenAI = ''openai''"
| "providerName Google = ''google''"

definition getProviderFromModel :: "string \<Rightarrow> provider" where
  "getProviderFromModel model =
     (if startsWith model ''claude'' then Anthropic
      else if startsWith model ''gpt'' then OpenAI
      else if startsWith model ''gemini'' then Google
      else Anthropic)"


section \<open>AI chat orchestration (aiChatActions)\<close>

subsection \<open>Environment and system prompt\<close>

text \<open>\<open>process.env\<close>: the value of a variable, or \<open>None\<close> when it is not set.\<close>

type_synonym env = "string \<Rightarrow> string option"

definition DEFAULT_SYSTEM_PROMPT :: string where
  "DEFAULT_SYSTEM_PROMPT =
     ''You are a helpful writing assistant. Help users write clearly and concisely.\<newline>'' @
     ''\<newline>'' @
     ''Always apply the rule of one:\<newline>'' @
     ''Focus on one person.\<newline>'' @
     ''Address one specific problem they are facing.\<newline>'' @
     ''Identify the single root cause of that problem.\<newline>'' @
     ''Explain the one thing the solution does differently.\<newline>'' @
     ''End by asking for one clear action.\<newline>'' @
     ''\<newline>'' @
     ''Follow these guidelines:\<newline>'' @
     ''Write in a clear and direct style.\<newline>'' @
     ''Avoid jargon and unnecessary complexity.\<newline>'' @
     ''Use short sentences and short paragraphs.\<newline>'' @
     ''Be concise but thorough.\<newline>'' @
     ''Do not use em dashes.\<newline>'' @
     ''Format responses in markdown when appropriate.''"

text \<open>The white space that \<open>trim\<close> removes, among code units below 256.\<close>

definition isWhiteSpace :: "char \<Rightarrow> bool" where
  "isWhiteSpace c = (c \<in> set [CHR 0x09, CHR 0x0A, CHR 0x0B, CHR 0x0C, CHR 0x0D, CHR 0x20, CHR 0xA0])"

text \<open>\<open>p.trim()\<close> is truthy when \<open>p\<close> has a character that is not white space.\<close>

definition trimTruthy :: "string \<Rightarrow> bool" where
  "trimTruthy p = (\<not> list_all isWhiteSpace p)"

text \<open>\<open>xs.join(sep)\<close>\<close>

fun join :: "string \<Rightarrow> string list \<Rightarrow> string" where
  "join sep [] = []"
| "join sep [x] = x"
| "join sep (x # y # ys) = x @ sep @ join sep (y # ys)"

definition buildSystemPrompt :: "env \<Rightarrow> string" where
  "buildSystemPrompt env =
     (let part1 = orElse (env ''CLAUDE_PROMPT_STYLE'') '''';
          part2 = orElse (env ''CLAUDE_PROMPT_COMMUNITY'') '''';
          part3 = orElse (env ''CLAUDE_PROMPT_RULES'') '''';
          parts = filter trimTruthy [part1, part2, part3]
      in if length parts > 0 then join ''\<newline>\<newline>---\<newline>\<newline>'' parts
         else orElse (env ''CLAUDE_SYSTEM_PROMPT'') DEFAULT_SYSTEM_PROMPT)"

subsection \<open>Credentials\<close>

text \<open>\<open>process.env.X || null\<close>\<close>

definition orNull :: "string option \<Rightarrow> string option" where
  "orNull v = (if truthy v then v else None)"

fun getApiKeyForProvider :: "env \<Rightarrow> provider \<Rightarrow> string option" where
  "getApiKeyForProvider env Anthropic = orNull (env ''ANTHROPIC_API_KEY'')"
| "getApiKeyForProvider env OpenAI = orNull (env ''OPENAI_API_KEY'')"
| "getApiKeyForProvider env Google = orNull (env ''GOOGLE_AI_API_KEY'')"

record provider_config =
  name :: string
  envVar :: string
  consoleUrl :: string
  consoleName :: string

fun configs :: "provider \<Rightarrow> provider_config" where
  "configs Anthropic =
     \<lparr>name = ''Claude (Anthropic)'', envVar = ''ANTHROPIC_API_KEY'',
      consoleUrl = ''https://console.anthropic.com/'', consoleName = ''Anthropic Console''\<rparr>"
| "configs OpenAI =
     \<lparr>name = ''GPT (OpenAI)'', envVar = ''OPENAI_API_KEY'',
      consoleUrl = ''https://platform.openai.com/api-keys'', consoleName = ''OpenAI Platform''\<rparr>"
| "configs Google =
     \<lparr>name = ''Gemini (Google)'', envVar = ''GOOGLE_AI_API_KEY'',
      consoleUrl = ''https://aistudio.google.com/apikey'', consoleName = ''Google AI Studio''\<rparr>"

definition getNotConfiguredMessage :: "provider \<Rightarrow> string" where
  "getNotConfiguredMessage provider =
     (let config = configs provider
      in ''**'' @ name config @ '' is not configured.**\<newline>\<newline>'' @
         ''To enable this model, add your `'' @ envVar config @
           ''` to the Convex environment variables.\<newline>\<newline>'' @
         ''**Setup steps:**\<newline>'' @
         ''1. Get an API key from ['' @ consoleName config @ '']('' @ consoleUrl config @ '')\<newline>'' @
         ''2. Add it to Convex: `npx convex env set '' @ envVar config @ '' your-key-here`\<newline>'' @
         ''3. For production, set it in the [Convex Dashboard](https://dashboard.convex.dev/)\<newline>\<newline>'' @
         ''See the [Convex environment variables docs](https://docs.convex.dev/production/environment-variables) for more details.'')"

subsection \<open>Chats, attachments and the provider-agnostic messages\<close>

datatype role = User | Assistant

datatype attachment_type = Image | Link

record attachment =
  atype :: attachment_type
  storageId :: "string option"
  url :: "string option"
  scrapedContent :: "string option"
  title :: "string option"

record chat_message =
  role :: role
  content :: string
  attachments :: "attachment list option"

record chat =
  messages :: "chat_message list"
  pageContext :: "string option"

text \<open>
  A \<open>ContentBlockParam\<close>: a text block, an image block with its source, or a block of
  any other kind.
\<close>

datatype image_source = UrlSource string | OtherSource

datatype content_block = TextBlock string | ImageBlock image_source | OtherBlock

datatype message_content = Str string | Blocks "content_block list"

record message =
  m_role :: role
  m_content :: message_content

text \<open>
  Modelled from the spec: the module \<open>aiChats\<close> with the internal functions that the
  action calls through \<open>ctx\<close> is not part of the sources. Each awaited call is a
  function of what is passed to a throw (the call rejects) or a value:
  \<open>getAIChatInternal\<close> gives the chat of an identifier or nothing,
  \<open>getStorageUrlInternal\<close> the URL of a stored object or nothing, and
  \<open>runAddAssistantMessage\<close> is the outcome of the mutation \<open>addAssistantMessage\<close>, which
  persists an assistant turn: \<open>added\<close> holds the persisted turns, chat identifier and
  content, in the order of the calls.
\<close>

record ctx =
  getAIChatInternal :: "string \<Rightarrow> thrown + chat option"
  getStorageUrlInternal :: "string \<Rightarrow> thrown + string option"
  runAddAssistantMessage :: "string \<Rightarrow> string \<Rightarrow> thrown + unit"
  added :: "(string \<times> string) list"

definition addAssistantMessage :: "ctx \<Rightarrow> string \<Rightarrow> string \<Rightarrow> thrown + ctx" where
  "addAssistantMessage c chatId text =
     (case runAddAssistantMessage c chatId text of
        Inl e \<Rightarrow> Inl e
      | Inr u \<Rightarrow> Inr (c\<lparr>added := added c @ [(chatId, text)]\<rparr>))"

subsection \<open>Vendor services\<close>

text \<open>What the scraping service returns: \<open>success\<close>, \<open>markdown\<close> and \<open>metadata?.title\<close>.\<close>

record scrape_result =
  sr_success :: bool
  sr_markdown :: "string option"
  sr_title :: "string option"

datatype anthropic_block = AText string | AOther

datatype openai_part = OText string | OImageUrl string

datatype openai_content = OStr string | OParts "openai_part list"

datatype openai_message = OSystem string | OUser openai_content | OAssistant string

datatype gemini_part = GText string | GInlineData string string

record gemini_content =
  g_role :: string
  g_parts :: "gemini_part list"

text \<open>
  The vendor SDK calls, each a function of what the action passes (the API key first,
  then model, token limit, system prompt and messages) to a throw or a response:
  \<open>anthropicCreate\<close> gives \<open>response.content\<close>, \<open>openaiCreate\<close> gives
  \<open>response.choices[0]?.message?.content\<close>, \<open>geminiGenerate\<close> gives the \<open>text\<close> of each
  part of \<open>response.candidates?.[0]?.content?.parts\<close>.
\<close>

record services =
  firecrawlScrape :: "string \<Rightarrow> string \<Rightarrow> thrown + scrape_result"
  anthropicCreate :: "string \<Rightarrow> string \<Rightarrow> nat \<Rightarrow> string \<Rightarrow> message list \<Rightarrow> thrown + anthropic_block list"
  openaiCreate :: "string \<Rightarrow> string \<Rightarrow> nat \<Rightarrow> openai_message list \<Rightarrow> thrown + string option"
  geminiGenerate :: "string \<Rightarrow> string \<Rightarrow> nat \<Rightarrow> string \<Rightarrow> gemini_content list \<Rightarrow> thrown + string option list option"

subsection \<open>Link scraping\<close>

record scraped =
  sc_content :: string
  sc_title :: "string option"

definition scrapeUrl :: "env \<Rightarrow> services \<Rightarrow> string \<Rightarrow> scraped option" where
  "scrapeUrl env sv u =
     (case orNull (env ''FIRECRAWL_API_KEY'') of
        None \<Rightarrow> None
      | Some apiKey \<Rightarrow>
          (case firecrawlScrape sv apiKey u of
             Inl e \<Rightarrow> None
           | Inr result \<Rightarrow>
               (case sr_markdown result of
                  None \<Rightarrow> None
                | Some markdown \<Rightarrow>
                    if \<not> sr_success result \<or> markdown = [] then None
                    else Some \<lparr>sc_content = markdown, sc_title = sr_title result\<rparr>)))"

text \<open>The function mapped over the attachments of the new message.\<close>

definition scrapeAttachment :: "env \<Rightarrow> services \<Rightarrow> attachment \<Rightarrow> attachment" where
  "scrapeAttachment env sv a =
     (case url a of
        None \<Rightarrow> a
      | Some u \<Rightarrow>
          if atype a = Link \<and> u \<noteq> [] \<and> \<not> truthy (scrapedContent a) then
            (case scrapeUrl env sv u of
               Some s \<Rightarrow>
                 a\<lparr>scrapedContent := Some (sc_content s),
                   title := (if truthy (sc_title s) then sc_title s else title a)\<rparr>
             | None \<Rightarrow> a)
          else a)"

definition processAttachments :: "env \<Rightarrow> services \<Rightarrow> attachment list option \<Rightarrow> attachment list option" where
  "processAttachments env sv atts =
     (case atts of
        None \<Rightarrow> None
      | Some as \<Rightarrow> if length as > 0 then Some (map (scrapeAttachment env sv) as) else Some as)"

subsection \<open>Building the messages\<close>

text \<open>A template literal prints an absent value as \<open>undefined\<close>.\<close>

definition interpolate :: "string option \<Rightarrow> string" where
  "interpolate v = (case v of None \<Rightarrow> ''undefined'' | Some s \<Rightarrow> s)"

definition linkText :: "attachment \<Rightarrow> string" where
  "linkText a =
     (let t = orElse (url a) ''''
      in case scrapedContent a of
           None \<Rightarrow> t
         | Some sc \<Rightarrow>
             if sc = [] then t
             else t @ ''\<newline>\<newline>Content from '' @ interpolate (url a) @ '':\<newline>'' @ sc)"

text \<open>
  The loop over attachments, the same for a stored message and for the new one: it
  pushes an image block for an image whose storage URL resolves and a text block for a
  link with a non-empty text. The query for the storage URL is awaited outside any
  \<open>try\<close>, so its throw ends the loop and the action.
\<close>

fun pushAttachments :: "ctx \<Rightarrow> attachment list \<Rightarrow> content_block list \<Rightarrow> thrown + content_block list" where
  "pushAttachments c [] parts = Inr parts"
| "pushAttachments c (a # as) parts =
     (if atype a = Image \<and> truthy (storageId a) then
        (case storageId a of
           None \<Rightarrow> pushAttachments c as parts
         | Some sid \<Rightarrow>
             (case getStorageUrlInternal c sid of
                Inl e \<Rightarrow> Inl e
              | Inr imageUrl \<Rightarrow>
                  pushAttachments c as
                    (case imageUrl of
                       None \<Rightarrow> parts
                     | Some u \<Rightarrow>
                         if u \<noteq> [] then parts @ [ImageBlock (UrlSource u)] else parts)))
      else if atype a = Link then
        pushAttachments c as
          (if linkText a \<noteq> [] then parts @ [TextBlock (linkText a)] else parts)
      else pushAttachments c as parts)"

text \<open>\<open>parts.length === 1 && parts[0].type === "text" ? parts[0].text : parts\<close>\<close>

definition textOrParts :: "content_block list \<Rightarrow> message_content" where
  "textOrParts parts = (case parts of [TextBlock t] \<Rightarrow> Str t | _ \<Rightarrow> Blocks parts)"

definition formatMessage :: "ctx \<Rightarrow> chat_message \<Rightarrow> thrown + message" where
  "formatMessage c msg =
     (if role msg = Assistant then Inr \<lparr>m_role = Assistant, m_content = Str (content msg)\<rparr>
      else
        (let contentParts = (if content msg \<noteq> [] then [TextBlock (content msg)] else [])
         in case (case attachments msg of
                    None \<Rightarrow> Inr contentParts
                  | Some as \<Rightarrow> pushAttachments c as contentParts) of
              Inl e \<Rightarrow> Inl e
            | Inr contentParts \<Rightarrow> Inr \<lparr>m_role = User, m_content = textOrParts contentParts\<rparr>))"

text \<open>The loop over the recent messages, pushing one formatted message for each.\<close>

fun pushMessages :: "ctx \<Rightarrow> chat_message list \<Rightarrow> message list \<Rightarrow> thrown + message list" where
  "pushMessages c [] formattedMessages = Inr formattedMessages"
| "pushMessages c (msg # msgs) formattedMessages =
     (case formatMessage c msg of
        Inl e \<Rightarrow> Inl e
      | Inr m \<Rightarrow> pushMessages c msgs (formattedMessages @ [m]))"

definition newMessage :: "ctx \<Rightarrow> string \<Rightarrow> attachment list option \<Rightarrow> thrown + message" where
  "newMessage c userMessage processedAttachments =
     (let newMessageContent = (if userMessage \<noteq> [] then [TextBlock userMessage] else [])
      in case (case processedAttachments of
                 None \<Rightarrow> Inr newMessageContent
               | Some as \<Rightarrow>
                   if length as > 0 then pushAttachments c as newMessageContent
                   else Inr newMessageContent) of
           Inl e \<Rightarrow> Inl e
         | Inr newMessageContent \<Rightarrow>
             Inr \<lparr>m_role = User, m_content = textOrParts newMessageContent\<rparr>)"

text \<open>
  \<open>formattedMessages\<close> as it is when the provider is called: the last 20 stored
  messages, formatted, and then the new user message.
\<close>

definition formattedMessages :: "ctx \<Rightarrow> chat \<Rightarrow> string \<Rightarrow> attachment list option \<Rightarrow> thrown + message list" where
  "formattedMessages c ch userMessage processedAttachments =
     (let recentMessages = sliceLast 20 (messages ch)
      in case pushMessages c recentMessages [] of
           Inl e \<Rightarrow> Inl e
         | Inr formatted \<Rightarrow>
             (case newMessage c userMessage processedAttachments of
                Inl e \<Rightarrow> Inl e
              | Inr m \<Rightarrow> Inr (formatted @ [m])))"

subsection \<open>Provider calls\<close>

text \<open>\<open>block.type === "text"\<close>\<close>

fun isTextBlock :: "anthropic_block \<Rightarrow> bool" where
  "isTextBlock (AText t) = True"
| "isTextBlock AOther = False"

text \<open>What each call function makes of the vendor's response.\<close>

definition anthropicReply :: "anthropic_block list \<Rightarrow> thrown + string" where
  "anthropicReply blocks =
     (case find isTextBlock blocks of
        Some (AText t) \<Rightarrow> Inr t
      | _ \<Rightarrow> Inl (Error ''No text content in Claude response''))"

definition callAnthropicApi :: "services \<Rightarrow> string \<Rightarrow> string \<Rightarrow> string \<Rightarrow> message list \<Rightarrow> thrown + string" where
  "callAnthropicApi sv apiKey model systemPrompt msgs =
     andThen (anthropicCreate sv apiKey model 2048 systemPrompt msgs) anthropicReply"

text \<open>The loop over the blocks of one message in \<open>callOpenAIApi\<close>.\<close>

fun openaiParts :: "content_block list \<Rightarrow> openai_part list \<Rightarrow> openai_part list" where
  "openaiParts [] acc = acc"
| "openaiParts (TextBlock t # bs) acc = openaiParts bs (acc @ [OText t])"
| "openaiParts (ImageBlock (UrlSource u) # bs) acc = openaiParts bs (acc @ [OImageUrl u])"
| "openaiParts (b # bs) acc = openaiParts bs acc"

fun openaiText :: "openai_part \<Rightarrow> string option" where
  "openaiText (OText t) = Some t"
| "openaiText (OImageUrl u) = None"

text \<open>The body of the loop over the messages in \<open>callOpenAIApi\<close>: what is pushed for one.\<close>

definition openaiMessage :: "message \<Rightarrow> openai_message" where
  "openaiMessage msg =
     (case m_content msg of
        Str s \<Rightarrow> (if m_role msg = User then OUser (OStr s) else OAssistant s)
      | Blocks bs \<Rightarrow>
          (let parts = openaiParts bs []
           in if m_role msg = User then
                OUser (case parts of [OText t] \<Rightarrow> OStr t | _ \<Rightarrow> OParts parts)
              else OAssistant (join ''\<newline>'' (List.map_filter openaiText parts))))"

fun openaiMessages :: "message list \<Rightarrow> openai_message list \<Rightarrow> openai_message list" where
  "openaiMessages [] acc = acc"
| "openaiMessages (msg # msgs) acc = openaiMessages msgs (acc @ [openaiMessage msg])"

definition openaiReply :: "string option \<Rightarrow> thrown + string" where
  "openaiReply textContent =
     (case textContent of
        None \<Rightarrow> Inl (Error ''No text content in OpenAI response'')
      | Some t \<Rightarrow>
          if t = [] then Inl (Error ''No text content in OpenAI response'') else Inr t)"

definition callOpenAIApi :: "services \<Rightarrow> string \<Rightarrow> string \<Rightarrow> string \<Rightarrow> message list \<Rightarrow> thrown + string" where
  "callOpenAIApi sv apiKey model systemPrompt msgs =
     andThen (openaiCreate sv apiKey model 2048 (openaiMessages msgs [OSystem systemPrompt]))
       openaiReply"

text \<open>
  The loop over the blocks of one message in \<open>callGeminiApi\<close>: only text blocks are
  pushed.
\<close>

fun geminiParts :: "content_block list \<Rightarrow> gemini_part list \<Rightarrow> gemini_part list" where
  "geminiParts [] parts = parts"
| "geminiParts (TextBlock t # bs) parts = geminiParts bs (parts @ [GText t])"
| "geminiParts (b # bs) parts = geminiParts bs parts"

fun geminiMessages :: "message list \<Rightarrow> gemini_content list \<Rightarrow> gemini_content list" where
  "geminiMessages [] acc = acc"
| "geminiMessages (msg # msgs) acc =
     (let r = (if m_role msg = Assistant then ''model'' else ''user'')
      in geminiMessages msgs
           (case m_content msg of
              Str s \<Rightarrow> acc @ [\<lparr>g_role = r, g_parts = [GText s]\<rparr>]
            | Blocks bs \<Rightarrow>
                (let parts = geminiParts bs []
                 in if length parts > 0 then acc @ [\<lparr>g_role = r, g_parts = parts\<rparr>] else acc)))"

definition geminiReply :: "string option list option \<Rightarrow> thrown + string" where
  "geminiReply parts =
     (case parts of
        None \<Rightarrow> Inl (Error ''No text content in Gemini response'')
      | Some ps \<Rightarrow>
          (case find truthy ps of
             Some (Some t) \<Rightarrow> Inr t
           | _ \<Rightarrow> Inl (Error ''No text content in Gemini response'')))"

definition callGeminiApi :: "services \<Rightarrow> string \<Rightarrow> string \<Rightarrow> string \<Rightarrow> message list \<Rightarrow> thrown + string" where
  "callGeminiApi sv apiKey model systemPrompt msgs =
     andThen (geminiGenerate sv apiKey model 2048 systemPrompt (geminiMessages msgs []))
       geminiReply"

fun callProvider :: "services \<Rightarrow> provider \<Rightarrow> string \<Rightarrow> string \<Rightarrow> string \<Rightarrow> message list \<Rightarrow> thrown + string" where
  "callProvider sv Anthropic apiKey model systemPrompt msgs =
     callAnthropicApi sv apiKey model systemPrompt msgs"
| "callProvider sv OpenAI apiKey model systemPrompt msgs =
     callOpenAIApi sv apiKey model systemPrompt msgs"
| "callProvider sv Google apiKey model systemPrompt msgs =
     callGeminiApi sv apiKey model systemPrompt msgs"

subsection \<open>The action \<open>generateResponse\<close>\<close>

record response_args =
  arg_chatId :: string
  arg_userMessage :: string
  arg_model :: "string option"
  arg_pageContext :: "string option"
  arg_attachments :: "attachment list option"

text \<open>\<open>error instanceof Error ? error.message : "Unknown error"\<close>\<close>

fun errorMessageOf :: "thrown \<Rightarrow> string" where
  "errorMessageOf (Error m) = m"
| "errorMessageOf NonError = ''Unknown error''"

definition systemPromptFor :: "env \<Rightarrow> response_args \<Rightarrow> chat \<Rightarrow> string" where
  "systemPromptFor env args ch =
     (let systemPrompt = buildSystemPrompt env;
          pageContent = (if truthy (arg_pageContext args) then arg_pageContext args
                         else pageContext ch)
      in case pageContent of
           None \<Rightarrow> systemPrompt
         | Some pc \<Rightarrow>
             if pc = [] then systemPrompt
             else systemPrompt @
               ''\<newline>\<newline>---\<newline>\<newline>The user is viewing a page with the following content. Use this as context for your responses:\<newline>\<newline>'' @ pc)"

text \<open>\<open>args.model || "claude-sonnet-4-20250514"\<close>, and the provider of that model.\<close>

definition selectedModel :: "response_args \<Rightarrow> string" where
  "selectedModel args = orElse (arg_model args) ''claude-sonnet-4-20250514''"

definition selectedProvider :: "response_args \<Rightarrow> provider" where
  "selectedProvider args = getProviderFromModel (selectedModel args)"

text \<open>The \<open>try\<close> around the provider call with its \<open>catch\<close>.\<close>

definition catchProviderError :: "provider \<Rightarrow> thrown + string \<Rightarrow> string" where
  "catchProviderError provider outcome =
     (case outcome of
        Inr assistantMessage \<Rightarrow> assistantMessage
      | Inl err \<Rightarrow> ''**Error from '' @ providerName provider @ '':** '' @ errorMessageOf err)"

text \<open>
  \<open>await ctx.runMutation(internal.aiChats.addAssistantMessage, ...); return message\<close>:
  the mutation is awaited outside any \<open>try\<close>, so its throw is the action's.
\<close>

definition saveAndReturn :: "ctx \<Rightarrow> string \<Rightarrow> string \<Rightarrow> (thrown + string) \<times> ctx" where
  "saveAndReturn c chatId message =
     (case addAssistantMessage c chatId message of
        Inl e \<Rightarrow> (Inl e, c)
      | Inr c1 \<Rightarrow> (Inr message, c1))"

text \<open>
  The handler. Its result is the returned string, or the value it throws, together with
  the state of the backend afterwards.
\<close>

definition generateResponse :: "env \<Rightarrow> services \<Rightarrow> ctx \<Rightarrow> response_args \<Rightarrow> (thrown + string) \<times> ctx" where
  "generateResponse env sv c args =
     (let provider = selectedProvider args
      in case getApiKeyForProvider env provider of
           None \<Rightarrow> saveAndReturn c (arg_chatId args) (getNotConfiguredMessage provider)
         | Some apiKey \<Rightarrow>
             (case getAIChatInternal c (arg_chatId args) of
                Inl e \<Rightarrow> (Inl e, c)
              | Inr None \<Rightarrow> (Inl (Error ''Chat not found''), c)
              | Inr (Some ch) \<Rightarrow>
                  (let systemPrompt = systemPromptFor env args ch;
                       processedAttachments = processAttachments env sv (arg_attachments args)
                   in case formattedMessages c ch (arg_userMessage args) processedAttachments of
                        Inl e \<Rightarrow> (Inl e, c)
                      | Inr msgs \<Rightarrow>
                          (let assistantMessage =
                                 catchProviderError provider
                                   (callProvider sv provider apiKey (selectedModel args)
                                      systemPrompt msgs)
                           in saveAndReturn c (arg_chatId args) assistantMessage))))"

section \<open>AI image generation (aiImageGeneration)\<close>

record image_args =
  img_sessionId :: string
  img_prompt :: string
  img_model :: string
  img_aspectRatio :: "string option"

record image_result =
  success :: bool
  res_storageId :: "string option"
  res_url :: "string option"
  error :: "string option"

record inline_data =
  mimeType :: "string option"
  data :: "string option"

record response_part =
  inlineData :: "inline_data option"

record blob =
  blob_bytes :: "nat list"
  blob_type :: string

record image_meta =
  meta_sessionId :: string
  meta_prompt :: string
  meta_model :: string
  meta_storageId :: string
  meta_mimeType :: string

text \<open>
  The fields of a \<open>GeneratedImageRecord\<close> that \<open>getRecentImages\<close> reads, and the
  object it returns for each, and its arguments. Time stamps and the limit are taken
  as integers.
\<close>

record generated_image =
  gi_id :: string
  gi_prompt :: string
  gi_model :: string
  gi_storageId :: string
  gi_createdAt :: int

record recent_image =
  ri_id :: string
  ri_prompt :: string
  ri_model :: string
  ri_url :: "string option"
  ri_createdAt :: int

record recent_args =
  rec_sessionId :: string
  rec_limit :: "int option"

text \<open>
  Every call the two actions await, as a function of what is passed (the API key first
  for the vendor SDK) to a throw or a value:
  \<open>generateContent\<close> gives \<open>response.candidates?.[0]?.content?.parts\<close>,
  \<open>generateImages\<close> gives \<open>response.generatedImages?.[0]?.image?.imageBytes\<close>,
  \<open>atob\<close> is the platform's base64 decoder, \<open>storageStore\<close> and \<open>storageGetUrl\<close>
  are \<open>ctx.storage\<close>, and \<open>saveGeneratedImage\<close> and \<open>getRecentImagesInternal\<close> are
  the mutation and the query of the backend.
\<close>

record image_services =
  generateContent :: "string \<Rightarrow> string \<Rightarrow> string \<Rightarrow> thrown + response_part list option"
  generateImages :: "string \<Rightarrow> string \<Rightarrow> string \<Rightarrow> string \<Rightarrow> thrown + string option"
  atob :: "string \<Rightarrow> thrown + string"
  storageStore :: "blob \<Rightarrow> thrown + string"
  storageGetUrl :: "string \<Rightarrow> thrown + string option"
  saveGeneratedImage :: "image_meta \<Rightarrow> thrown + unit"
  getRecentImagesInternal :: "string \<Rightarrow> int \<Rightarrow> thrown + generated_image list"

text \<open>What the action has written: the stored blobs and the metadata records.\<close>

record image_store =
  blobs :: "(string \<times> blob) list"
  imageRecords :: "image_meta list"

text \<open>The loop of \<open>base64ToBytes\<close>: one byte for each character of the decoded string.\<close>

fun charCodes :: "string \<Rightarrow> nat list" where
  "charCodes [] = []"
| "charCodes (c # cs) = of_char c # charCodes cs"

definition base64ToBytes :: "image_services \<Rightarrow> string \<Rightarrow> thrown + nat list" where
  "base64ToBytes sv base64 =
     (case atob sv base64 of Inl e \<Rightarrow> Inl e | Inr binaryString \<Rightarrow> Inr (charCodes binaryString))"

definition noImage :: image_result where
  "noImage = \<lparr>success = False, res_storageId = None, res_url = None,
              error = Some ''No image was generated. Try a different prompt.''\<rparr>"

text \<open>\<open>inlineData?.mimeType?.startsWith("image/")\<close>\<close>

definition isImagePart :: "response_part \<Rightarrow> bool" where
  "isImagePart part =
     (case inlineData part of
        None \<Rightarrow> False
      | Some d \<Rightarrow> (case mimeType d of None \<Rightarrow> False | Some m \<Rightarrow> startsWith m ''image/''))"

text \<open>
  The two generation modes. Each gives a throw, or the result returned early, or the MIME
  type and the bytes of the image.
\<close>

definition geminiFlashImage :: "image_services \<Rightarrow> string \<Rightarrow> image_args \<Rightarrow> thrown + (image_result + string \<times> nat list)" where
  "geminiFlashImage sv apiKey args =
     (case generateContent sv apiKey (img_model args) (img_prompt args) of
        Inl e \<Rightarrow> Inl e
      | Inr parts \<Rightarrow>
          (case (case parts of None \<Rightarrow> None | Some ps \<Rightarrow> find isImagePart ps) of
             None \<Rightarrow> Inr (Inl noImage)
           | Some imagePart \<Rightarrow>
               (case inlineData imagePart of
                  None \<Rightarrow> Inr (Inl noImage)
                | Some d \<Rightarrow>
                    (case (mimeType d, data d) of
                       (Some m, Some b) \<Rightarrow>
                         if m = [] \<or> b = [] then Inr (Inl noImage)
                         else (case base64ToBytes sv b of
                                 Inl e \<Rightarrow> Inl e
                               | Inr imageBytes \<Rightarrow> Inr (Inr (m, imageBytes)))
                     | _ \<Rightarrow> Inr (Inl noImage)))))"

definition imagenImage :: "image_services \<Rightarrow> string \<Rightarrow> image_args \<Rightarrow> thrown + (image_result + string \<times> nat list)" where
  "imagenImage sv apiKey args =
     (case generateImages sv apiKey (img_model args) (img_prompt args)
             (orElse (img_aspectRatio args) ''1:1'') of
        Inl e \<Rightarrow> Inl e
      | Inr imageBytes \<Rightarrow>
          (case imageBytes of
             None \<Rightarrow> Inr (Inl noImage)
           | Some b \<Rightarrow>
               if b = [] then Inr (Inl noImage)
               else (case base64ToBytes sv b of
                       Inl e \<Rightarrow> Inl e
                     | Inr bytes \<Rightarrow> Inr (Inr (''image/png'', bytes)))))"

text \<open>
  The \<open>type\<close> of a \<open>Blob\<close>: the constructor keeps a type of printable ASCII characters
  in lower case and replaces any other by the empty string.
\<close>

definition asciiLower :: "char \<Rightarrow> char" where
  "asciiLower ch =
     (let n = (of_char ch :: nat) in if 65 \<le> n \<and> n \<le> 90 then char_of (n + 32) else ch)"

definition blobType :: "string \<Rightarrow> string" where
  "blobType t =
     (if list_all (\<lambda>ch. 32 \<le> (of_char ch :: nat) \<and> (of_char ch :: nat) \<le> 126) t
      then map asciiLower t else [])"

text \<open>
  Storing the image and saving its metadata. A write that succeeded stays written when a
  later call throws.
\<close>

definition storeImage :: "image_services \<Rightarrow> image_store \<Rightarrow> image_args \<Rightarrow> string \<Rightarrow> nat list \<Rightarrow> (thrown + image_result) \<times> image_store" where
  "storeImage sv st args mime imageBytes =
     (let b = \<lparr>blob_bytes = imageBytes, blob_type = blobType mime\<rparr>
      in case storageStore sv b of
           Inl e \<Rightarrow> (Inl e, st)
         | Inr sid \<Rightarrow>
             (let st1 = st\<lparr>blobs := blobs st @ [(sid, b)]\<rparr>
              in case storageGetUrl sv sid of
                   Inl e \<Rightarrow> (Inl e, st1)
                 | Inr u \<Rightarrow>
                     (let meta = \<lparr>meta_sessionId = img_sessionId args, meta_prompt = img_prompt args,
                                  meta_model = img_model args, meta_storageId = sid,
                                  meta_mimeType = mime\<rparr>
                      in case saveGeneratedImage sv meta of
                           Inl e \<Rightarrow> (Inl e, st1)
                         | Inr done \<Rightarrow>
                             (Inr \<lparr>success = True, res_storageId = Some sid,
                                   res_url = orNull u, error = None\<rparr>,
                              st1\<lparr>imageRecords := imageRecords st1 @ [meta]\<rparr>))))"

text \<open>The body of the \<open>try\<close> block.\<close>

definition generateImageTry :: "image_services \<Rightarrow> image_store \<Rightarrow> string \<Rightarrow> image_args \<Rightarrow> (thrown + image_result) \<times> image_store" where
  "generateImageTry sv st apiKey args =
     (case (if img_model args = ''gemini-2.0-flash-exp-image-generation''
            then geminiFlashImage sv apiKey args else imagenImage sv apiKey args) of
        Inl e \<Rightarrow> (Inl e, st)
      | Inr (Inl early) \<Rightarrow> (Inr early, st)
      | Inr (Inr (mime, imageBytes)) \<Rightarrow> storeImage sv st args mime imageBytes)"

definition notConfiguredImage :: string where
  "notConfiguredImage =
     ''**Gemini Image Generation is not configured.**\<newline>\<newline>'' @
     ''To use image generation, add your `GOOGLE_AI_API_KEY` to the Convex environment variables.\<newline>\<newline>'' @
     ''**Setup steps:**\<newline>'' @
     ''1. Get an API key from [Google AI Studio](https://aistudio.google.com/apikey)\<newline>'' @
     ''2. Add it to Convex: `npx convex env set GOOGLE_AI_API_KEY your-key-here`\<newline>'' @
     ''3. For production, set it in the [Convex Dashboard](https://dashboard.convex.dev/)\<newline>\<newline>'' @
     ''See the [Convex environment variables docs](https://docs.convex.dev/production/environment-variables) for more details.''"

definition rateLimitMessage :: string where
  "rateLimitMessage = ''**Rate limit exceeded.** Please try again in a few moments.''"

definition blockedMessage :: string where
  "blockedMessage = ''**Image generation blocked.** The prompt may have triggered content safety filters. Try rephrasing your prompt.''"

definition failure :: "string \<Rightarrow> image_result" where
  "failure e = \<lparr>success = False, res_storageId = None, res_url = None, error = Some e\<rparr>"

text \<open>The \<open>catch\<close> block.\<close>

definition catchImageError :: "thrown \<Rightarrow> image_result" where
  "catchImageError err =
     (let errorMessage = errorMessageOf err
      in if includesStr errorMessage ''quota'' \<or> includesStr errorMessage ''rate''
         then failure rateLimitMessage
         else if includesStr errorMessage ''safety'' \<or> includesStr errorMessage ''blocked''
         then failure blockedMessage
         else failure (''**Image generation failed:** '' @ errorMessage))"

text \<open>
  The handler. Its result is the returned object, or the value it throws, together with
  the store afterwards.
\<close>

definition generateImage :: "env \<Rightarrow> image_services \<Rightarrow> image_store \<Rightarrow> image_args \<Rightarrow> (thrown + image_result) \<times> image_store" where
  "generateImage env sv st args =
     (case orNull (env ''GOOGLE_AI_API_KEY'') of
        None \<Rightarrow> (Inr (failure notConfiguredImage), st)
      | Some apiKey \<Rightarrow>
          (case generateImageTry sv st apiKey args of
             (Inr r, st1) \<Rightarrow> (Inr r, st1)
           | (Inl err, st1) \<Rightarrow> (Inr (catchImageError err), st1)))"

section \<open>The action \<open>getRecentImages\<close>\<close>

text \<open>
  The URLs are fetched for all images at once and awaited together, outside any \<open>try\<close>.
  Which throw the caller sees when several fail depends on their timing; the model
  takes the first in the order of the list.
\<close>

fun imagesWithUrls :: "image_services \<Rightarrow> generated_image list \<Rightarrow> thrown + recent_image list" where
  "imagesWithUrls sv [] = Inr []"
| "imagesWithUrls sv (img # images) =
     (case storageGetUrl sv (gi_storageId img) of
        Inl e \<Rightarrow> Inl e
      | Inr u \<Rightarrow>
          (case imagesWithUrls sv images of
             Inl e \<Rightarrow> Inl e
           | Inr rest \<Rightarrow>
               Inr (\<lparr>ri_id = gi_id img, ri_prompt = gi_prompt img, ri_model = gi_model img,
                     ri_url = u, ri_createdAt = gi_createdAt img\<rparr> # rest)))"

definition getRecentImages :: "image_services \<Rightarrow> recent_args \<Rightarrow> thrown + recent_image list" where
  "getRecentImages sv args =
     (let limit = (case rec_limit args of None \<Rightarrow> 10 | Some n \<Rightarrow> if n = 0 then 10 else n)
      in case getRecentImagesInternal sv (rec_sessionId args) limit of
           Inl e \<Rightarrow> Inl e
         | Inr images \<Rightarrow> imagesWithUrls sv images)"


section \<open>Notions used in the statements\<close>

text \<open>
  The texts a provider-agnostic message carries, in order: its string content, or the
  texts of its text blocks. This follows the specification's description of the
  intermediate representation, not a function of the source.
\<close>

fun blockText :: "content_block \<Rightarrow> string option" where
  "blockText (TextBlock t) = Some t"
| "blockText (ImageBlock s) = None"
| "blockText OtherBlock = None"

definition messageTexts :: "message \<Rightarrow> string list" where
  "messageTexts msg =
     (case m_content msg of Str s \<Rightarrow> [s] | Blocks bs \<Rightarrow> List.map_filter blockText bs)"



text \<open>
  An error text mentions a word when the word occurs in it with no letter directly
  before or after it. An occurrence inside a longer word, such as \<open>rate\<close> in
  \<open>generate\<close>, is not a mention.
\<close>

definition isLetter :: "char \<Rightarrow> bool" where
  "isLetter ch =
     (let n = (of_char ch :: nat) in (65 \<le> n \<and> n \<le> 90) \<or> (97 \<le> n \<and> n \<le> 122))"

fun mentionsFrom :: "bool \<Rightarrow> string \<Rightarrow> string \<Rightarrow> bool" where
  "mentionsFrom afterLetter [] w = False"
| "mentionsFrom afterLetter (ch # cs) w =
     ((\<not> afterLetter \<and> startsWith (ch # cs) w \<and>
       (case drop (length w) (ch # cs) of [] \<Rightarrow> True | d # ds \<Rightarrow> \<not> isLetter d)) \<or>
      mentionsFrom (isLetter ch) cs w)"

definition mentions :: "string \<Rightarrow> string \<Rightarrow> bool" where
  "mentions txt w = mentionsFrom False txt w"


section \<open>Concrete inputs\<close>

text \<open>Inputs at which the theorems below are instantiated and the model is evaluated.\<close>

definition no_env :: env where
  "no_env = (\<lambda>v. None)"

definition anthropic_env :: env where
  "anthropic_env = (\<lambda>v. if v = ''ANTHROPIC_API_KEY'' then Some ''sk-test'' else None)"

definition google_env :: env where
  "google_env = (\<lambda>v. if v = ''GOOGLE_AI_API_KEY'' then Some ''g-test'' else None)"

text \<open>A chat with 25 stored messages, numbered in their order.\<close>

definition chat25 :: chat where
  "chat25 =
     \<lparr>messages = map (\<lambda>t. \<lparr>role = User, content = t, attachments = None\<rparr>)
        [''01'', ''02'', ''03'', ''04'', ''05'', ''06'', ''07'', ''08'', ''09'', ''10'',
         ''11'', ''12'', ''13'', ''14'', ''15'', ''16'', ''17'', ''18'', ''19'', ''20'',
         ''21'', ''22'', ''23'', ''24'', ''25''],
      pageContext = None\<rparr>"

definition ctx25 :: ctx where
  "ctx25 = \<lparr>getAIChatInternal = (\<lambda>i. Inr (if i = ''chat1'' then Some chat25 else None)),
            getStorageUrlInternal =
              (\<lambda>i. Inr (if i = ''img1'' then Some ''https://files.example/img1.png'' else None)),
            runAddAssistantMessage = (\<lambda>i m. Inr ()), added = []\<rparr>"

definition empty_ctx :: ctx where
  "empty_ctx = \<lparr>getAIChatInternal = (\<lambda>i. Inr None), getStorageUrlInternal = (\<lambda>i. Inr None),
                runAddAssistantMessage = (\<lambda>i m. Inr ()), added = []\<rparr>"

text \<open>A backend whose queries and mutation all throw.\<close>

definition down_ctx :: ctx where
  "down_ctx = \<lparr>getAIChatInternal = (\<lambda>i. Inl (Error ''backend unavailable'')),
               getStorageUrlInternal = (\<lambda>i. Inl (Error ''backend unavailable'')),
               runAddAssistantMessage = (\<lambda>i m. Inl (Error ''backend unavailable'')), added = []\<rparr>"

text \<open>
  Services that answer with what they were sent: for each message its role and texts,
  the messages separated by spaces.
\<close>

definition showGemini :: "gemini_content \<Rightarrow> string" where
  "showGemini gc =
     g_role gc @ '':'' @
     concat (map (\<lambda>p. case p of GText t \<Rightarrow> t | GInlineData m d \<Rightarrow> ''<data>'') (g_parts gc))"

fun showOpenai :: "openai_message \<Rightarrow> string" where
  "showOpenai (OSystem s) = ''system''"
| "showOpenai (OUser (OStr s)) = ''user:'' @ s"
| "showOpenai (OUser (OParts ps)) = ''user:<parts>''"
| "showOpenai (OAssistant s) = ''assistant:'' @ s"

definition echo_services :: services where
  "echo_services =
     \<lparr>firecrawlScrape = (\<lambda>k u. Inl NonError),
      anthropicCreate = (\<lambda>k m n s msgs. Inr [AText (join '' '' (concat (map messageTexts msgs)))]),
      openaiCreate = (\<lambda>k m n msgs. Inr (Some (join '' '' (map showOpenai msgs)))),
      geminiGenerate = (\<lambda>k m n s msgs. Inr (Some [Some (join '' '' (map showGemini msgs))]))\<rparr>"


definition hello_args :: response_args where
  "hello_args = \<lparr>arg_chatId = ''chat1'', arg_userMessage = ''new'', arg_model = None,
                 arg_pageContext = None, arg_attachments = None\<rparr>"



text \<open>Image services every call of which throws the given value.\<close>

definition throwing_image_services :: "thrown \<Rightarrow> image_services" where
  "throwing_image_services e =
     \<lparr>generateContent = (\<lambda>k m p. Inl e), generateImages = (\<lambda>k m p r. Inl e),
      atob = (\<lambda>b. Inl e), storageStore = (\<lambda>b. Inl e), storageGetUrl = (\<lambda>i. Inl e),
      saveGeneratedImage = (\<lambda>m. Inl e), getRecentImagesInternal = (\<lambda>i n. Inl e)\<rparr>"

definition empty_store :: image_store where
  "empty_store = \<lparr>blobs = [], imageRecords = []\<rparr>"

definition cat_args :: image_args where
  "cat_args = \<lparr>img_sessionId = ''s1'', img_prompt = ''a cat'',
               img_model = ''imagen-3.0-generate-002'', img_aspectRatio = None\<rparr>"






text \<open>Image services whose backend answers: one stored image, every URL resolves.\<close>

definition quiet_image_services :: image_services where
  "quiet_image_services =
     \<lparr>generateContent = (\<lambda>k m p. Inl NonError), generateImages = (\<lambda>k m p r. Inl NonError),
      atob = (\<lambda>b. Inr b), storageStore = (\<lambda>b. Inr ''blob1''),
      storageGetUrl = (\<lambda>i. Inr (Some (''https://files.example/'' @ i))),
      saveGeneratedImage = (\<lambda>m. Inr ()),
      getRecentImagesInternal =
        (\<lambda>i n. Inr [\<lparr>gi_id = ''image1'', gi_prompt = ''a cat'',
                        gi_model = ''imagen-3.0-generate-002'', gi_storageId = ''blob1'',
                        gi_createdAt = 1700000000000\<rparr>])\<rparr>"

definition session_args :: recent_args where
  "session_args = \<lparr>rec_sessionId = ''s1'', rec_limit = None\<rparr>"


section \<open>Theme store: properties\<close>

lemma toggleTheme_dark: "toggleTheme ''dark'' = ''light''"
  by (simp add: toggleTheme_def themes_def)

lemma toggleTheme_light: "toggleTheme ''light'' = ''tan''"
  by (simp add: toggleTheme_def themes_def)

lemma toggleTheme_tan: "toggleTheme ''tan'' = ''cloud''"
  by (simp add: toggleTheme_def themes_def)

lemma toggleTheme_cloud: "toggleTheme ''cloud'' = ''dark''"
  by (simp add: toggleTheme_def themes_def)

lemma themes_cases:
  "t \<in> set themes \<Longrightarrow> t = ''dark'' \<or> t = ''light'' \<or> t = ''tan'' \<or> t = ''cloud''"
  by (simp add: themes_def)

lemma toggleTheme_closed: "t \<in> set themes \<Longrightarrow> toggleTheme t \<in> set themes"
  using themes_cases [of t]
  by (auto simp: toggleTheme_dark toggleTheme_light toggleTheme_tan toggleTheme_cloud)
     (simp_all add: themes_def)

text \<open>
  C5. Toggling moves dark to light, light to tan, tan to cloud and cloud to dark, and
  four toggles from any of the four themes give the theme back.
\<close>

theorem toggleTheme_cycle:
  "toggleTheme ''dark'' = ''light'' \<and> toggleTheme ''light'' = ''tan'' \<and>
   toggleTheme ''tan'' = ''cloud'' \<and> toggleTheme ''cloud'' = ''dark'' \<and>
   (\<forall>t \<in> set themes. (toggleTheme ^^ 4) t = t)"
proof -
  have four: "(toggleTheme ^^ 4) t = t" if "t \<in> set themes" for t
    using themes_cases [OF that]
    by (auto simp: numeral_eq_Suc toggleTheme_dark toggleTheme_light toggleTheme_tan
        toggleTheme_cloud)
  show ?thesis
    using four
    by (simp add: toggleTheme_dark toggleTheme_light toggleTheme_tan toggleTheme_cloud)
qed

theorem toggleTheme_cycle_witness:
  "''tan'' \<in> set themes \<and> (toggleTheme ^^ 4) ''tan'' = ''tan'' \<and>
   theme_run ''tan'' [ToggleTheme, ToggleTheme] = ''dark''"
proof -
  have m: "''tan'' \<in> set themes" by (simp add: themes_def)
  have "theme_run ''tan'' [ToggleTheme, ToggleTheme] = ''dark''"
    by (simp add: toggleTheme_tan toggleTheme_cloud)
  with m toggleTheme_cycle show ?thesis by blast
qed

lemma getInitialTheme_listed:
  "defaultTheme \<in> set themes \<Longrightarrow> getInitialTheme b defaultTheme \<in> set themes"
  by (auto simp: getInitialTheme_def isListedTheme_def Let_def split: option.splits)

lemma getInitialTheme_fallback:
  assumes "\<forall>a. document b = Some a \<longrightarrow> \<not> isListedTheme a"
    and "\<forall>items. localStorage b = Some items \<longrightarrow> \<not> isListedTheme (items ''blog-theme'')"
  shows "getInitialTheme b defaultTheme = defaultTheme"
  using assms by (simp add: getInitialTheme_def Let_def split: option.splits)

lemma theme_step_closed:
  "theme \<in> set themes \<Longrightarrow> typed_action a \<Longrightarrow> theme_step theme a \<in> set themes"
  by (cases a) (simp_all add: setTheme_def toggleTheme_closed)

lemma theme_run_closed:
  "theme \<in> set themes \<Longrightarrow> list_all typed_action acts \<Longrightarrow> theme_run theme acts \<in> set themes"
proof (induction acts arbitrary: theme)
  case Nil
  then show ?case by simp
next
  case (Cons a acts)
  from Cons.prems have "theme_step theme a \<in> set themes"
    by (simp add: theme_step_closed)
  moreover from Cons.prems have "list_all typed_action acts"
    by simp
  ultimately show ?case
    using Cons.IH by simp
qed

text \<open>
  C10. With a default that is one of the four themes, the initial theme is one of the
  four; when neither the document attribute nor the persisted value is a listed theme the
  initial theme is the default; \<open>setTheme\<close> with a listed theme and \<open>toggleTheme\<close> keep the
  state among the four, and so does every sequence of such calls from the initial theme.
\<close>

theorem theme_state_listed:
  "defaultTheme \<in> set themes \<Longrightarrow>
   getInitialTheme b defaultTheme \<in> set themes \<and>
   ((\<forall>a. document b = Some a \<longrightarrow> \<not> isListedTheme a) \<and>
    (\<forall>items. localStorage b = Some items \<longrightarrow> \<not> isListedTheme (items ''blog-theme''))
      \<longrightarrow> getInitialTheme b defaultTheme = defaultTheme) \<and>
   (theme \<in> set themes \<and> newTheme \<in> set themes \<longrightarrow> setTheme theme newTheme \<in> set themes) \<and>
   (theme \<in> set themes \<longrightarrow> toggleTheme theme \<in> set themes) \<and>
   (list_all typed_action acts \<longrightarrow>
      theme_run (getInitialTheme b defaultTheme) acts \<in> set themes)"
  using getInitialTheme_listed [of defaultTheme b] getInitialTheme_fallback [of b defaultTheme]
    theme_run_closed [of "getInitialTheme b defaultTheme" acts] toggleTheme_closed [of theme]
  by (simp add: setTheme_def)

theorem theme_state_listed_witness:
  "''tan'' \<in> set themes \<and>
   getInitialTheme \<lparr>document = Some (Some ''blue''),
                    localStorage = Some (\<lambda>k. if k = ''blog-theme'' then Some ''neon'' else None)\<rparr>
     ''tan'' = ''tan'' \<and>
   ''cloud'' \<in> set themes \<and> ''light'' \<in> set themes \<and>
   setTheme ''cloud'' ''light'' \<in> set themes \<and> toggleTheme ''cloud'' \<in> set themes \<and>
   list_all typed_action [ToggleTheme, SetTheme ''dark'', ToggleTheme] \<and>
   theme_run (getInitialTheme \<lparr>document = Some (Some ''blue''),
                    localStorage = Some (\<lambda>k. if k = ''blog-theme'' then Some ''neon'' else None)\<rparr>
     ''tan'') [ToggleTheme, SetTheme ''dark'', ToggleTheme] \<in> set themes"
proof -
  have d: "''tan'' \<in> set themes" and c: "''cloud'' \<in> set themes" and l: "''light'' \<in> set themes"
    by (simp_all add: themes_def)
  have acts: "list_all typed_action [ToggleTheme, SetTheme ''dark'', ToggleTheme]"
    by (simp add: themes_def)
  have blue: "\<not> isListedTheme (Some ''blue'')" and neon: "\<not> isListedTheme (Some ''neon'')"
    by (simp_all add: isListedTheme_def themes_def)
  show ?thesis
    using theme_state_listed [OF d, of
        "\<lparr>document = Some (Some ''blue''),
          localStorage = Some (\<lambda>k. if k = ''blog-theme'' then Some ''neon'' else None)\<rparr>"
        "''cloud''" "''light''" "[ToggleTheme, SetTheme ''dark'', ToggleTheme]"]
      d c l acts blue neon
    by auto
qed


section \<open>Provider selection: properties\<close>

lemma startsWith_Cons: "startsWith s (c # p) \<longleftrightarrow> (\<exists>t. s = c # t \<and> startsWith t p)"
  by (cases s) (auto simp: startsWith_def)

lemma startsWith_take:
  "length p \<le> n \<Longrightarrow> startsWith (take n s) p = startsWith s p"
  by (simp add: startsWith_def min_def)

text \<open>
  C4. The provider depends on the model name only through its first six characters: a name
  starting with claude gives anthropic, with gpt openai, with gemini google, and any other
  name anthropic.
\<close>

theorem getProviderFromModel_prefix:
  "(startsWith model ''claude'' \<longrightarrow> getProviderFromModel model = Anthropic) \<and>
   (startsWith model ''gpt'' \<longrightarrow> getProviderFromModel model = OpenAI) \<and>
   (startsWith model ''gemini'' \<longrightarrow> getProviderFromModel model = Google) \<and>
   (\<not> startsWith model ''claude'' \<and> \<not> startsWith model ''gpt'' \<and>
    \<not> startsWith model ''gemini'' \<longrightarrow> getProviderFromModel model = Anthropic) \<and>
   getProviderFromModel (take 6 model) = getProviderFromModel model"
proof -
  have "getProviderFromModel (take 6 model) = getProviderFromModel model"
    by (simp add: getProviderFromModel_def startsWith_take)
  moreover have "startsWith model ''gpt'' \<Longrightarrow> \<not> startsWith model ''claude''"
    by (auto simp: startsWith_Cons)
  moreover have "startsWith model ''gemini'' \<Longrightarrow> \<not> startsWith model ''claude''"
    by (auto simp: startsWith_Cons)
  moreover have "startsWith model ''gemini'' \<Longrightarrow> \<not> startsWith model ''gpt''"
    by (auto simp: startsWith_Cons)
  ultimately show ?thesis
    by (auto simp: getProviderFromModel_def)
qed

theorem getProviderFromModel_prefix_witness:
  "startsWith ''claude-sonnet-4-20250514'' ''claude'' \<and>
   getProviderFromModel ''claude-sonnet-4-20250514'' = Anthropic \<and>
   startsWith ''gpt-4o'' ''gpt'' \<and> getProviderFromModel ''gpt-4o'' = OpenAI \<and>
   startsWith ''gemini-2.0-flash'' ''gemini'' \<and>
   getProviderFromModel ''gemini-2.0-flash'' = Google \<and>
   \<not> startsWith ''llama-3'' ''claude'' \<and> \<not> startsWith ''llama-3'' ''gpt'' \<and>
   \<not> startsWith ''llama-3'' ''gemini'' \<and> getProviderFromModel ''llama-3'' = Anthropic"
proof -
  have h: "startsWith ''claude-sonnet-4-20250514'' ''claude''" "startsWith ''gpt-4o'' ''gpt''"
    "startsWith ''gemini-2.0-flash'' ''gemini''" "\<not> startsWith ''llama-3'' ''claude''"
    "\<not> startsWith ''llama-3'' ''gpt''" "\<not> startsWith ''llama-3'' ''gemini''"
    by (simp_all add: startsWith_def)
  show ?thesis
    using h getProviderFromModel_prefix [of "''claude-sonnet-4-20250514''"]
      getProviderFromModel_prefix [of "''gpt-4o''"]
      getProviderFromModel_prefix [of "''gemini-2.0-flash''"]
      getProviderFromModel_prefix [of "''llama-3''"]
    by blast
qed

section \<open>Gemini translation: properties\<close>

lemma geminiParts_acc: "geminiParts bs parts = parts @ map GText (List.map_filter blockText bs)"
  by (induction bs parts rule: geminiParts.induct) (simp_all add: List.map_filter_simps)

lemma geminiMessages_parts:
  "concat (map g_parts (geminiMessages msgs acc)) =
   concat (map g_parts acc) @ map GText (concat (map messageTexts msgs))"
proof (induction msgs arbitrary: acc)
  case Nil
  then show ?case by simp
next
  case (Cons msg msgs)
  show ?case
  proof (cases "m_content msg")
    case (Str s)
    then show ?thesis
      by (simp add: Cons.IH messageTexts_def Let_def)
  next
    case (Blocks bs)
    then show ?thesis
      by (simp add: Cons.IH messageTexts_def Let_def geminiParts_acc)
  qed
qed

text \<open>
  C8. The parts of the contents built for Gemini are, in order, exactly the texts of the
  messages (string contents and text blocks); every part is a text part, so no image
  block reaches the payload.
\<close>

theorem gemini_text_only:
  "concat (map g_parts (geminiMessages msgs [])) = map GText (concat (map messageTexts msgs)) \<and>
   (\<forall>c \<in> set (geminiMessages msgs []). \<forall>p \<in> set (g_parts c). \<exists>t. p = GText t)"
proof -
  have eq: "concat (map g_parts (geminiMessages msgs [])) = map GText (concat (map messageTexts msgs))"
    by (simp add: geminiMessages_parts)
  have "\<exists>t. p = GText t" if "c \<in> set (geminiMessages msgs [])" and "p \<in> set (g_parts c)" for c p
  proof -
    from that have "p \<in> set (concat (map g_parts (geminiMessages msgs [])))"
      by auto
    then show ?thesis
      unfolding eq by auto
  qed
  with eq show ?thesis by blast
qed

theorem gemini_text_only_witness:
  "geminiMessages
     [\<lparr>m_role = User, m_content = Blocks [TextBlock ''look'', ImageBlock (UrlSource ''https://img/1.png'')]\<rparr>,
      \<lparr>m_role = Assistant, m_content = Str ''ok''\<rparr>,
      \<lparr>m_role = User, m_content = Blocks [ImageBlock (UrlSource ''https://img/2.png'')]\<rparr>] []
   = [\<lparr>g_role = ''user'', g_parts = [GText ''look'']\<rparr>, \<lparr>g_role = ''model'', g_parts = [GText ''ok'']\<rparr>] \<and>
   concat (map g_parts (geminiMessages
     [\<lparr>m_role = User, m_content = Blocks [TextBlock ''look'', ImageBlock (UrlSource ''https://img/1.png'')]\<rparr>,
      \<lparr>m_role = Assistant, m_content = Str ''ok''\<rparr>,
      \<lparr>m_role = User, m_content = Blocks [ImageBlock (UrlSource ''https://img/2.png'')]\<rparr>] []))
   = [GText ''look'', GText ''ok'']"
proof -
  let ?msgs = "[\<lparr>m_role = User, m_content = Blocks [TextBlock ''look'', ImageBlock (UrlSource ''https://img/1.png'')]\<rparr>,
      \<lparr>m_role = Assistant, m_content = Str ''ok''\<rparr>,
      \<lparr>m_role = User, m_content = Blocks [ImageBlock (UrlSource ''https://img/2.png'')]\<rparr>]"
  have ev: "geminiMessages ?msgs [] =
      [\<lparr>g_role = ''user'', g_parts = [GText ''look'']\<rparr>, \<lparr>g_role = ''model'', g_parts = [GText ''ok'']\<rparr>]"
    by simp
  have texts: "concat (map messageTexts ?msgs) = [''look'', ''ok'']"
    by (simp add: messageTexts_def List.map_filter_simps)
  from gemini_text_only [of ?msgs] texts
  have "concat (map g_parts (geminiMessages ?msgs [])) = [GText ''look'', GText ''ok'']"
    by simp
  with ev show ?thesis by blast
qed



section \<open>Chat orchestration: properties\<close>






lemma generateResponse_calls:
  assumes "getApiKeyForProvider env (selectedProvider args) = Some apiKey"
    and "getAIChatInternal c (arg_chatId args) = Inr (Some ch)"
    and "formattedMessages c ch (arg_userMessage args)
           (processAttachments env sv (arg_attachments args)) = Inr msgs"
  shows "generateResponse env sv c args =
    saveAndReturn c (arg_chatId args)
      (catchProviderError (selectedProvider args)
         (callProvider sv (selectedProvider args) apiKey (selectedModel args)
            (systemPromptFor env args ch) msgs))"
  using assms by (simp add: generateResponse_def Let_def)




lemma hello_provider: "selectedProvider hello_args = Anthropic"
  by (simp add: selectedProvider_def selectedModel_def hello_args_def orElse_def
      getProviderFromModel_def startsWith_def)

lemma hello_key: "getApiKeyForProvider anthropic_env (selectedProvider hello_args) = Some ''sk-test''"
  by (simp add: hello_provider anthropic_env_def orNull_def truthy_def)

lemma hello_chat: "getAIChatInternal ctx25 (arg_chatId hello_args) = Inr (Some chat25)"
  by (simp add: ctx25_def hello_args_def)






















section \<open>Image generation: properties\<close>

lemma notConfiguredImage_mentions: "includesStr notConfiguredImage ''not configured''"
  by (simp add: notConfiguredImage_def startsWith_def)

lemma storeImage_flag:
  "storeImage sv st args mime bytes = (Inr r, st1) \<Longrightarrow> success r \<and> error r = None \<and> res_storageId r \<noteq> None"
  by (auto simp: storeImage_def Let_def split: sum.splits)

lemma geminiFlashImage_early:
  "geminiFlashImage sv apiKey args = Inr (Inl r) \<Longrightarrow> r = noImage"
  by (auto simp: geminiFlashImage_def split: sum.splits option.splits if_splits)

lemma imagenImage_early:
  "imagenImage sv apiKey args = Inr (Inl r) \<Longrightarrow> r = noImage"
  by (auto simp: imagenImage_def split: sum.splits option.splits if_splits)

lemma generateImageTry_flag:
  assumes "generateImageTry sv st apiKey args = (Inr r, st1)"
  shows "(success r \<and> error r = None) \<or> (\<not> success r \<and> error r \<noteq> None)"
proof (cases "if img_model args = ''gemini-2.0-flash-exp-image-generation''
            then geminiFlashImage sv apiKey args else imagenImage sv apiKey args")
  case (Inl e)
  with assms show ?thesis
    by (simp add: generateImageTry_def)
next
  case (Inr x)
  show ?thesis
  proof (cases x)
    case (Inl early)
    with Inr have "early = noImage"
      by (auto dest: geminiFlashImage_early imagenImage_early split: if_splits)
    with Inr Inl assms show ?thesis
      by (auto simp: generateImageTry_def noImage_def)
  next
    case (Inr found)
    obtain mime bytes where "found = (mime, bytes)"
      by (cases found)
    with \<open>_ = Inr x\<close> Inr assms have "storeImage sv st args mime bytes = (Inr r, st1)"
      by (simp add: generateImageTry_def)
    from storeImage_flag [OF this] show ?thesis by simp
  qed
qed

lemma catchImageError_flag: "\<not> success (catchImageError err) \<and> error (catchImageError err) \<noteq> None"
  by (simp add: catchImageError_def failure_def Let_def)

lemma generateImage_returns:
  "\<exists>r. fst (generateImage env sv st args) = Inr r \<and>
       ((success r \<and> error r = None) \<or> (\<not> success r \<and> error r \<noteq> None))"
proof (cases "orNull (env ''GOOGLE_AI_API_KEY'')")
  case None
  then show ?thesis
    by (simp add: generateImage_def failure_def)
next
  case (Some apiKey)
  obtain out st1 where t: "generateImageTry sv st apiKey args = (out, st1)"
    by (cases "generateImageTry sv st apiKey args")
  show ?thesis
  proof (cases out)
    case (Inl err)
    with Some t catchImageError_flag [of err] show ?thesis
      by (auto simp: generateImage_def)
  next
    case (Inr r)
    with t have "generateImageTry sv st apiKey args = (Inr r, st1)" by simp
    from generateImageTry_flag [OF this] Some t Inr show ?thesis
      by (simp add: generateImage_def)
  qed
qed

lemma generateImage_no_key:
  "\<not> truthy (env ''GOOGLE_AI_API_KEY'') \<Longrightarrow>
   generateImage env sv st args = (Inr (failure notConfiguredImage), st)"
  by (simp add: generateImage_def orNull_def)

text \<open>
  C6. With \<open>GOOGLE_AI_API_KEY\<close> absent (or empty), \<open>generateImage\<close> returns a result with
  \<open>success\<close> false and an error text containing \<open>not configured\<close>, and the store is
  unchanged: no blob and no metadata record is added.
\<close>

theorem image_no_credential:
  "\<not> truthy (env ''GOOGLE_AI_API_KEY'') \<Longrightarrow>
   (\<exists>e. fst (generateImage env sv st args) =
          Inr \<lparr>success = False, res_storageId = None, res_url = None, error = Some e\<rparr> \<and>
        includesStr e ''not configured'') \<and>
   snd (generateImage env sv st args) = st \<and>
   blobs (snd (generateImage env sv st args)) = blobs st \<and>
   imageRecords (snd (generateImage env sv st args)) = imageRecords st"
  using notConfiguredImage_mentions
  by (simp add: generateImage_no_key failure_def)


theorem image_no_credential_witness:
  "\<not> truthy (no_env ''GOOGLE_AI_API_KEY'') \<and>
   fst (generateImage no_env (throwing_image_services NonError) empty_store cat_args) =
     Inr \<lparr>success = False, res_storageId = None, res_url = None, error = Some notConfiguredImage\<rparr> \<and>
   snd (generateImage no_env (throwing_image_services NonError) empty_store cat_args) = empty_store"
proof -
  have h: "\<not> truthy (no_env ''GOOGLE_AI_API_KEY'')"
    by (simp add: no_env_def truthy_def)
  have ev: "fst (generateImage no_env (throwing_image_services NonError) empty_store cat_args) =
     Inr \<lparr>success = False, res_storageId = None, res_url = None, error = Some notConfiguredImage\<rparr>"
    by (simp add: generateImage_def no_env_def orNull_def truthy_def failure_def)
  from image_no_credential [where env = no_env and sv = "throwing_image_services NonError"
      and st = empty_store and args = cat_args, OF h] h ev
  show ?thesis by blast
qed

lemma throwing_try:
  "generateImageTry (throwing_image_services e) st apiKey cat_args = (Inl e, st)"
  by (simp add: generateImageTry_def imagenImage_def throwing_image_services_def cat_args_def)

lemma google_key: "google_env ''GOOGLE_AI_API_KEY'' = Some ''g-test''"
  by (simp add: google_env_def)

lemma mentionsFrom_includes: "mentionsFrom b t w \<Longrightarrow> includesStr t w"
  by (induction t arbitrary: b) auto

lemma mentions_includes: "mentions t w \<Longrightarrow> includesStr t w"
  unfolding mentions_def by (rule mentionsFrom_includes)

text \<open>
  C7, as stated, fails: an error text that mentions \<open>blocked\<close> and also \<open>quota\<close> gets
  the rate-limit message, not the safety message, since the test for quota and rate
  comes first.
\<close>

theorem quota_precedence_counterexample:
  "mentions ''quota exceeded: request blocked'' ''blocked'' \<and>
   fst (generateImage google_env
          (throwing_image_services (Error ''quota exceeded: request blocked''))
          empty_store cat_args) = Inr (failure rateLimitMessage) \<and>
   failure rateLimitMessage \<noteq> failure blockedMessage"
proof -
  have "generateImage google_env
          (throwing_image_services (Error ''quota exceeded: request blocked''))
          empty_store cat_args =
        (Inr (catchImageError (Error ''quota exceeded: request blocked'')), empty_store)"
    by (simp add: generateImage_def orNull_def truthy_def google_env_def throwing_try)
  moreover have "catchImageError (Error ''quota exceeded: request blocked'') =
      failure rateLimitMessage"
    by (simp add: catchImageError_def startsWith_def)
  moreover have "mentions ''quota exceeded: request blocked'' ''blocked''"
    by (simp add: mentions_def startsWith_def isLetter_def)
  moreover have "failure rateLimitMessage \<noteq> failure blockedMessage"
    by (simp add: failure_def rateLimitMessage_def blockedMessage_def)
  ultimately show ?thesis by simp
qed

text \<open>
  C7, amended. \<open>generateImage\<close> never throws: it returns a result whose \<open>success\<close> flag
  tells whether \<open>error\<close> is present. With the key absent the error is the
  missing-credential message. When a call inside the \<open>try\<close> block throws, the error is
  the rate-limit message if the error text mentions \<open>quota\<close> or \<open>rate\<close>, and the
  safety-filter message if it mentions \<open>safety\<close> or \<open>blocked\<close> and contains neither
  \<open>quota\<close> nor \<open>rate\<close> anywhere. Nothing is stated for a text in which one of these
  words occurs only inside a longer word.
\<close>

theorem image_failures_mapped:
  "(\<exists>r. fst (generateImage env sv st args) = Inr r \<and>
        ((success r \<and> error r = None) \<or> (\<not> success r \<and> error r \<noteq> None))) \<and>
   (\<not> truthy (env ''GOOGLE_AI_API_KEY'') \<longrightarrow>
      fst (generateImage env sv st args) = Inr (failure notConfiguredImage)) \<and>
   (\<forall>apiKey err st1.
      env ''GOOGLE_AI_API_KEY'' = Some apiKey \<and> apiKey \<noteq> [] \<and>
      generateImageTry sv st apiKey args = (Inl err, st1) \<longrightarrow>
      (mentions (errorMessageOf err) ''quota'' \<or> mentions (errorMessageOf err) ''rate'' \<longrightarrow>
         fst (generateImage env sv st args) = Inr (failure rateLimitMessage)) \<and>
      (\<not> includesStr (errorMessageOf err) ''quota'' \<and> \<not> includesStr (errorMessageOf err) ''rate'' \<and>
       (mentions (errorMessageOf err) ''safety'' \<or> mentions (errorMessageOf err) ''blocked'') \<longrightarrow>
         fst (generateImage env sv st args) = Inr (failure blockedMessage)))"
proof -
  have caught: "fst (generateImage env sv st args) = Inr (catchImageError err)"
    if "env ''GOOGLE_AI_API_KEY'' = Some apiKey" "apiKey \<noteq> []"
      "generateImageTry sv st apiKey args = (Inl err, st1)" for apiKey err st1
    using that by (simp add: generateImage_def orNull_def truthy_def)
  have rate: "catchImageError err = failure rateLimitMessage"
    if "mentions (errorMessageOf err) ''quota'' \<or> mentions (errorMessageOf err) ''rate''" for err
    using that by (auto simp: catchImageError_def Let_def dest: mentions_includes)
  have safe: "catchImageError err = failure blockedMessage"
    if "\<not> includesStr (errorMessageOf err) ''quota''" "\<not> includesStr (errorMessageOf err) ''rate''"
      "mentions (errorMessageOf err) ''safety'' \<or> mentions (errorMessageOf err) ''blocked''" for err
    using that by (auto simp: catchImageError_def Let_def dest: mentions_includes)
  show ?thesis
    using generateImage_returns [of env sv st args] generateImage_no_key [of env sv st args]
      caught rate safe
    by (metis fst_conv)
qed


theorem image_failures_mapped_witness:
  "\<not> truthy (no_env ''GOOGLE_AI_API_KEY'') \<and>
   fst (generateImage no_env (throwing_image_services NonError) empty_store cat_args) =
     Inr (failure notConfiguredImage) \<and>
   google_env ''GOOGLE_AI_API_KEY'' = Some ''g-test'' \<and>
   generateImageTry (throwing_image_services (Error ''429 quota exceeded'')) empty_store ''g-test'' cat_args =
     (Inl (Error ''429 quota exceeded''), empty_store) \<and>
   mentions (errorMessageOf (Error ''429 quota exceeded'')) ''quota'' \<and>
   fst (generateImage google_env (throwing_image_services (Error ''429 quota exceeded'')) empty_store cat_args) =
     Inr (failure rateLimitMessage) \<and>
   generateImageTry (throwing_image_services (Error ''prompt blocked'')) empty_store ''g-test'' cat_args =
     (Inl (Error ''prompt blocked''), empty_store) \<and>
   \<not> includesStr (errorMessageOf (Error ''prompt blocked'')) ''quota'' \<and>
   \<not> includesStr (errorMessageOf (Error ''prompt blocked'')) ''rate'' \<and>
   mentions (errorMessageOf (Error ''prompt blocked'')) ''blocked'' \<and>
   fst (generateImage google_env (throwing_image_services (Error ''prompt blocked'')) empty_store cat_args) =
     Inr (failure blockedMessage)"
proof -
  have h: "\<not> truthy (no_env ''GOOGLE_AI_API_KEY'')"
    by (simp add: no_env_def truthy_def)
  have k: "''g-test'' \<noteq> []" by simp
  have q: "mentions (errorMessageOf (Error ''429 quota exceeded'')) ''quota''"
    by (simp add: mentions_def startsWith_def isLetter_def)
  have b: "\<not> includesStr (errorMessageOf (Error ''prompt blocked'')) ''quota''"
    "\<not> includesStr (errorMessageOf (Error ''prompt blocked'')) ''rate''"
    by (simp_all add: startsWith_def)
  have m: "mentions (errorMessageOf (Error ''prompt blocked'')) ''blocked''"
    by (simp add: mentions_def startsWith_def isLetter_def)
  note t1 = throwing_try [of "Error ''429 quota exceeded''" empty_store "''g-test''"]
  note t2 = throwing_try [of "Error ''prompt blocked''" empty_store "''g-test''"]
  from image_failures_mapped [of no_env "throwing_image_services NonError" empty_store cat_args] h
  have 1: "fst (generateImage no_env (throwing_image_services NonError) empty_store cat_args) =
     Inr (failure notConfiguredImage)"
    by blast
  from image_failures_mapped [of google_env "throwing_image_services (Error ''429 quota exceeded'')"
      empty_store cat_args] google_key k t1 q
  have 2: "fst (generateImage google_env (throwing_image_services (Error ''429 quota exceeded''))
      empty_store cat_args) = Inr (failure rateLimitMessage)"
    by blast
  from image_failures_mapped [of google_env "throwing_image_services (Error ''prompt blocked'')"
      empty_store cat_args] google_key k t2 b m
  have 3: "fst (generateImage google_env (throwing_image_services (Error ''prompt blocked''))
      empty_store cat_args) = Inr (failure blockedMessage)"
    by blast
  from h 1 google_key t1 q 2 t2 b m 3 show ?thesis by blast
qed

text \<open>
  What the amended statement leaves open: the source tests for substrings, so a safety
  error whose text has the word generate, and neither quota nor rate as a word, is
  reported as a rate limit.
\<close>

lemma rate_inside_generate:
  "\<not> mentions ''Failed to generate image: blocked by safety filters'' ''rate'' \<and>
   mentions ''Failed to generate image: blocked by safety filters'' ''safety'' \<and>
   fst (generateImage google_env
          (throwing_image_services (Error ''Failed to generate image: blocked by safety filters''))
          empty_store cat_args) = Inr (failure rateLimitMessage)"
proof -
  have "catchImageError (Error ''Failed to generate image: blocked by safety filters'') =
      failure rateLimitMessage"
    by (simp add: catchImageError_def startsWith_def)
  then have "fst (generateImage google_env
          (throwing_image_services (Error ''Failed to generate image: blocked by safety filters''))
          empty_store cat_args) = Inr (failure rateLimitMessage)"
    by (simp add: generateImage_def orNull_def truthy_def google_env_def throwing_try)
  moreover have "\<not> mentions ''Failed to generate image: blocked by safety filters'' ''rate''"
    by (simp add: mentions_def startsWith_def isLetter_def)
  moreover have "mentions ''Failed to generate image: blocked by safety filters'' ''safety''"
    by (simp add: mentions_def startsWith_def isLetter_def)
  ultimately show ?thesis by blast
qed

section \<open>Actions and errors\<close>

lemma pushAttachments_Inl:
  "pushAttachments c as parts = Inl e \<Longrightarrow> \<exists>sid. getStorageUrlInternal c sid = Inl e"
proof (induction as arbitrary: parts)
  case Nil
  then show ?case by simp
next
  case (Cons a as)
  then show ?case
    by (auto split: if_splits option.splits sum.splits)
qed

lemma formatMessage_Inl:
  "formatMessage c msg = Inl e \<Longrightarrow> \<exists>sid. getStorageUrlInternal c sid = Inl e"
  by (auto simp: formatMessage_def Let_def split: if_splits option.splits sum.splits
      dest: pushAttachments_Inl)

lemma pushMessages_Inl:
  "pushMessages c msgs acc = Inl e \<Longrightarrow> \<exists>sid. getStorageUrlInternal c sid = Inl e"
proof (induction msgs arbitrary: acc)
  case Nil
  then show ?case by simp
next
  case (Cons msg msgs)
  then show ?case
    by (auto split: sum.splits dest: formatMessage_Inl)
qed

lemma newMessage_Inl:
  "newMessage c userMessage atts = Inl e \<Longrightarrow> \<exists>sid. getStorageUrlInternal c sid = Inl e"
  by (auto simp: newMessage_def Let_def split: if_splits option.splits sum.splits
      dest: pushAttachments_Inl)

lemma formattedMessages_Inl:
  "formattedMessages c ch userMessage atts = Inl e \<Longrightarrow> \<exists>sid. getStorageUrlInternal c sid = Inl e"
  by (auto simp: formattedMessages_def Let_def split: sum.splits
      dest: pushMessages_Inl newMessage_Inl)

lemma saveAndReturn_Inl:
  "fst (saveAndReturn c chatId m) = Inl e \<Longrightarrow> runAddAssistantMessage c chatId m = Inl e"
  by (auto simp: saveAndReturn_def addAssistantMessage_def split: sum.splits)

lemma generateResponse_raise_cause:
  assumes "fst (generateResponse env sv c args) = Inl e"
  shows "(e = Error ''Chat not found'' \<and>
          getApiKeyForProvider env (selectedProvider args) \<noteq> None \<and>
          getAIChatInternal c (arg_chatId args) = Inr None) \<or>
         getAIChatInternal c (arg_chatId args) = Inl e \<or>
         (\<exists>sid. getStorageUrlInternal c sid = Inl e) \<or>
         (\<exists>m. runAddAssistantMessage c (arg_chatId args) m = Inl e)"
proof (cases "getApiKeyForProvider env (selectedProvider args)")
  case None
  with assms have "fst (saveAndReturn c (arg_chatId args)
      (getNotConfiguredMessage (selectedProvider args))) = Inl e"
    by (simp add: generateResponse_def Let_def)
  from saveAndReturn_Inl [OF this] show ?thesis by blast
next
  case (Some apiKey)
  show ?thesis
  proof (cases "getAIChatInternal c (arg_chatId args)")
    case (Inl x)
    with Some assms show ?thesis
      by (simp add: generateResponse_def Let_def)
  next
    case (Inr found)
    show ?thesis
    proof (cases found)
      case None
      with Some Inr assms show ?thesis
        by (simp add: generateResponse_def Let_def)
    next
      case (Some ch)
      show ?thesis
      proof (cases "formattedMessages c ch (arg_userMessage args)
          (processAttachments env sv (arg_attachments args))")
        case (Inl x)
        with \<open>getApiKeyForProvider env (selectedProvider args) = Some apiKey\<close> Inr Some assms
        have "x = e"
          by (simp add: generateResponse_def Let_def)
        with Inl formattedMessages_Inl show ?thesis by blast
      next
        case (Inr msgs)
        from generateResponse_calls [OF \<open>getApiKeyForProvider env (selectedProvider args) = Some apiKey\<close> _ Inr]
          \<open>getAIChatInternal c (arg_chatId args) = Inr found\<close> Some assms
        have "fst (saveAndReturn c (arg_chatId args)
            (catchProviderError (selectedProvider args)
               (callProvider sv (selectedProvider args) apiKey (selectedModel args)
                  (systemPromptFor env args ch) msgs))) = Inl e"
          by simp
        from saveAndReturn_Inl [OF this] show ?thesis by blast
      qed
    qed
  qed
qed

lemma generateResponse_chat_not_found:
  "getApiKeyForProvider env (selectedProvider args) \<noteq> None \<Longrightarrow>
   getAIChatInternal c (arg_chatId args) = Inr None \<Longrightarrow>
   fst (generateResponse env sv c args) = Inl (Error ''Chat not found'')"
  by (auto simp: generateResponse_def Let_def)

lemma imagesWithUrls_Inl:
  "imagesWithUrls sv imgs = Inl e \<Longrightarrow> \<exists>sid. storageGetUrl sv sid = Inl e"
  by (induction imgs arbitrary: e) (auto split: sum.splits)

lemma getRecentImages_Inl:
  "getRecentImages sv args = Inl e \<Longrightarrow>
   (\<exists>s n. getRecentImagesInternal sv s n = Inl e) \<or> (\<exists>sid. storageGetUrl sv sid = Inl e)"
  by (auto simp: getRecentImages_def Let_def split: sum.splits dest: imagesWithUrls_Inl)

text \<open>
  C9, as stated, fails: with the credential present and no chat under the identifier,
  \<open>generateResponse\<close> throws \<open>Chat not found\<close> to its caller.
\<close>

theorem chat_not_found_counterexample:
  "fst (generateResponse anthropic_env echo_services empty_ctx hello_args) =
     Inl (Error ''Chat not found'')"
  using hello_key
  by (simp add: generateResponse_def Let_def empty_ctx_def)

text \<open>
  C9, amended, for the three actions of the sources. \<open>generateImage\<close> never throws to
  its caller. What \<open>generateResponse\<close> throws is \<open>Chat not found\<close>, with the credential
  present and no chat under the identifier, or else what a backend call it awaits
  outside its \<open>try\<close> throws: the chat query, a storage URL query or the persisting
  mutation; it throws \<open>Chat not found\<close> whenever the credential is present and the chat
  is not found, and it returns a message when none of these calls throws and the
  credential is absent or the chat is found. What \<open>getRecentImages\<close> throws is what
  its query or a \<open>getUrl\<close> call throws, and it returns when none of them throws.
\<close>

theorem actions_raise_only_backend_errors:
  "(\<exists>r. fst (generateImage env isv st iargs) = Inr r) \<and>
   (\<forall>e. fst (generateResponse env sv c args) = Inl e \<longrightarrow>
      (e = Error ''Chat not found'' \<and>
       getApiKeyForProvider env (selectedProvider args) \<noteq> None \<and>
       getAIChatInternal c (arg_chatId args) = Inr None) \<or>
      getAIChatInternal c (arg_chatId args) = Inl e \<or>
      (\<exists>sid. getStorageUrlInternal c sid = Inl e) \<or>
      (\<exists>m. runAddAssistantMessage c (arg_chatId args) m = Inl e)) \<and>
   (getApiKeyForProvider env (selectedProvider args) \<noteq> None \<and>
    getAIChatInternal c (arg_chatId args) = Inr None \<longrightarrow>
      fst (generateResponse env sv c args) = Inl (Error ''Chat not found'')) \<and>
   ((\<forall>e. getAIChatInternal c (arg_chatId args) \<noteq> Inl e \<and>
         (\<forall>sid. getStorageUrlInternal c sid \<noteq> Inl e) \<and>
         (\<forall>m. runAddAssistantMessage c (arg_chatId args) m \<noteq> Inl e)) \<and>
    (getApiKeyForProvider env (selectedProvider args) = None \<or>
     getAIChatInternal c (arg_chatId args) \<noteq> Inr None) \<longrightarrow>
      (\<exists>m. fst (generateResponse env sv c args) = Inr m)) \<and>
   (\<forall>e. getRecentImages isv rargs = Inl e \<longrightarrow>
      (\<exists>s n. getRecentImagesInternal isv s n = Inl e) \<or> (\<exists>sid. storageGetUrl isv sid = Inl e)) \<and>
   ((\<forall>e. (\<forall>s n. getRecentImagesInternal isv s n \<noteq> Inl e) \<and>
         (\<forall>sid. storageGetUrl isv sid \<noteq> Inl e)) \<longrightarrow>
      (\<exists>r. getRecentImages isv rargs = Inr r))"
proof -
  have img: "\<exists>r. fst (generateImage env isv st iargs) = Inr r"
    using generateImage_returns [of env isv st iargs] by blast
  have cause: "\<forall>e. fst (generateResponse env sv c args) = Inl e \<longrightarrow>
      (e = Error ''Chat not found'' \<and>
       getApiKeyForProvider env (selectedProvider args) \<noteq> None \<and>
       getAIChatInternal c (arg_chatId args) = Inr None) \<or>
      getAIChatInternal c (arg_chatId args) = Inl e \<or>
      (\<exists>sid. getStorageUrlInternal c sid = Inl e) \<or>
      (\<exists>m. runAddAssistantMessage c (arg_chatId args) m = Inl e)"
    using generateResponse_raise_cause [of env sv c args] by blast
  have guard: "getApiKeyForProvider env (selectedProvider args) \<noteq> None \<and>
    getAIChatInternal c (arg_chatId args) = Inr None \<longrightarrow>
      fst (generateResponse env sv c args) = Inl (Error ''Chat not found'')"
    using generateResponse_chat_not_found [of env args c sv] by blast
  have ret: "\<exists>m. fst (generateResponse env sv c args) = Inr m"
    if quiet: "\<forall>e. getAIChatInternal c (arg_chatId args) \<noteq> Inl e \<and>
         (\<forall>sid. getStorageUrlInternal c sid \<noteq> Inl e) \<and>
         (\<forall>m. runAddAssistantMessage c (arg_chatId args) m \<noteq> Inl e)"
      and ok: "getApiKeyForProvider env (selectedProvider args) = None \<or>
         getAIChatInternal c (arg_chatId args) \<noteq> Inr None"
  proof (cases "fst (generateResponse env sv c args)")
    case (Inl e)
    from generateResponse_raise_cause [OF this] quiet ok show ?thesis
      by auto
  next
    case (Inr m)
    then show ?thesis by blast
  qed
  have rcause: "\<forall>e. getRecentImages isv rargs = Inl e \<longrightarrow>
      (\<exists>s n. getRecentImagesInternal isv s n = Inl e) \<or> (\<exists>sid. storageGetUrl isv sid = Inl e)"
    using getRecentImages_Inl [of isv rargs] by blast
  have rret: "\<exists>r. getRecentImages isv rargs = Inr r"
    if "\<forall>e. (\<forall>s n. getRecentImagesInternal isv s n \<noteq> Inl e) \<and>
         (\<forall>sid. storageGetUrl isv sid \<noteq> Inl e)"
  proof (cases "getRecentImages isv rargs")
    case (Inl e)
    from getRecentImages_Inl [OF this] that show ?thesis
      by blast
  next
    case (Inr r)
    then show ?thesis by blast
  qed
  from img cause guard ret rcause rret show ?thesis
    by blast
qed


theorem actions_raise_only_backend_errors_witness:
  "getApiKeyForProvider anthropic_env (selectedProvider hello_args) \<noteq> None \<and>
   getAIChatInternal empty_ctx (arg_chatId hello_args) = Inr None \<and>
   fst (generateResponse anthropic_env echo_services empty_ctx hello_args) =
     Inl (Error ''Chat not found'') \<and>
   getAIChatInternal ctx25 (arg_chatId hello_args) \<noteq> Inr None \<and>
   (\<exists>m. fst (generateResponse anthropic_env echo_services ctx25 hello_args) = Inr m) \<and>
   getAIChatInternal down_ctx (arg_chatId hello_args) = Inl (Error ''backend unavailable'') \<and>
   fst (generateResponse anthropic_env echo_services down_ctx hello_args) =
     Inl (Error ''backend unavailable'') \<and>
   getRecentImages (throwing_image_services (Error ''backend unavailable'')) session_args =
     Inl (Error ''backend unavailable'') \<and>
   (\<exists>r. getRecentImages quiet_image_services session_args = Inr r)"
proof -
  have k: "getApiKeyForProvider anthropic_env (selectedProvider hello_args) \<noteq> None"
    using hello_key by simp
  have n: "getAIChatInternal empty_ctx (arg_chatId hello_args) = Inr None"
    by (simp add: empty_ctx_def)
  have s: "getAIChatInternal ctx25 (arg_chatId hello_args) \<noteq> Inr None"
    using hello_chat by simp
  have quiet: "\<forall>e. getAIChatInternal ctx25 (arg_chatId hello_args) \<noteq> Inl e \<and>
         (\<forall>sid. getStorageUrlInternal ctx25 sid \<noteq> Inl e) \<and>
         (\<forall>m. runAddAssistantMessage ctx25 (arg_chatId hello_args) m \<noteq> Inl e)"
    by (simp add: ctx25_def)
  have iquiet: "\<forall>e. (\<forall>s n. getRecentImagesInternal quiet_image_services s n \<noteq> Inl e) \<and>
         (\<forall>sid. storageGetUrl quiet_image_services sid \<noteq> Inl e)"
    by (simp add: quiet_image_services_def)
  have d: "getAIChatInternal down_ctx (arg_chatId hello_args) = Inl (Error ''backend unavailable'')"
    by (simp add: down_ctx_def)
  have dr: "fst (generateResponse anthropic_env echo_services down_ctx hello_args) =
     Inl (Error ''backend unavailable'')"
    using hello_key d by (simp add: generateResponse_def Let_def)
  have tr: "getRecentImages (throwing_image_services (Error ''backend unavailable'')) session_args =
     Inl (Error ''backend unavailable'')"
    by (simp add: getRecentImages_def throwing_image_services_def)
  from actions_raise_only_backend_errors [of anthropic_env "throwing_image_services NonError"
      empty_store cat_args echo_services empty_ctx hello_args session_args] k n
  have 1: "fst (generateResponse anthropic_env echo_services empty_ctx hello_args) =
     Inl (Error ''Chat not found'')"
    by blast
  from actions_raise_only_backend_errors [of anthropic_env quiet_image_services
      empty_store cat_args echo_services ctx25 hello_args session_args] s quiet iquiet
  have 2: "\<exists>m. fst (generateResponse anthropic_env echo_services ctx25 hello_args) = Inr m"
    and 3: "\<exists>r. getRecentImages quiet_image_services session_args = Inr r"
    by blast+
  from k n 1 s 2 d dr tr 3 show ?thesis by blast
qed

end
